theory Spec2Isabelle
  imports Main "HOL-Library.Word" "HOL-Library.AList"
begin

section \<open>JavaScript values\<close>

text \<open>
  The codec of \<^verbatim>\<open>src/index.js\<close> is dynamically typed: \<^verbatim>\<open>hashfn\<close> is a string or a
  number, a digest is tested with \<^verbatim>\<open>Buffer.isBuffer\<close>, and several guards rely on
  JavaScript truthiness. The values that can reach those guards are modelled by one
  datatype. Numbers are the integers (fractions, NaN and the infinities are left out);
  a Buffer is the list of its bytes.
\<close>

type_synonym byte = "8 word"

datatype jsval =
    Undefined
  | Null
  | Bool bool
  | Num int
  | Str string
  | Buf "byte list"

text \<open>\<^verbatim>\<open>!v\<close> is \<open>\<not> truthy v\<close>: an object (a Buffer, even an empty one) is always truthy.\<close>

fun truthy :: "jsval \<Rightarrow> bool" where
  "truthy Undefined = False"
| "truthy Null = False"
| "truthy (Bool b) = b"
| "truthy (Num n) = (n \<noteq> 0)"
| "truthy (Str s) = (s \<noteq> [])"
| "truthy (Buf bs) = True"

text \<open>The result of \<^verbatim>\<open>Map.prototype.get\<close>: the stored value, or \<^verbatim>\<open>undefined\<close>.\<close>

fun js_num :: "int option \<Rightarrow> jsval" where
  "js_num None = Undefined"
| "js_num (Some n) = Num n"

fun js_str :: "string option \<Rightarrow> jsval" where
  "js_str None = Undefined"
| "js_str (Some s) = Str s"

section \<open>The failures\<close>

text \<open>
  Every \<^verbatim>\<open>Error\<close> the source creates, named after the condition that creates it:
  \<^item> \<open>MissingArguments\<close>: 'multihash encode requires at least two args: hashfn, digest'
  \<^item> \<open>UnknownHashName\<close>: 'Unrecognized hash function named: ...'
  \<^item> \<open>InvalidCodeType\<close>: 'Hash function code should be a number. Got: ...'
  \<^item> \<open>UnrecognizedCode\<close>: 'Unrecognized function code: ...'
  \<^item> \<open>InvalidDigestType\<close>: 'digest should be a Buffer'
  \<^item> \<open>LengthMismatch\<close>: 'digest length should be equal to specified length.'
  \<^item> \<open>LengthTooLarge\<close>: 'multihash does not yet support digest lengths greater than 127 bytes.'
  \<^item> \<open>NotAByteSequence\<close>: 'multihash must be a Buffer'
  \<^item> \<open>TooShort\<close>: 'multihash too short. must be > 3 bytes.'
  \<^item> \<open>TooLong\<close>: 'multihash too long. must be < 129 bytes.'
  \<^item> \<open>UnknownFunctionCode\<close>: 'multihash unknown function code: 0x...'
  \<^item> \<open>LengthInconsistent\<close>: 'multihash length inconsistent: 0x...'

  and the one exception the source does not create itself: the \<open>TypeError\<close> that the
  \<^verbatim>\<open>Map\<close> constructor throws when its argument cannot be iterated.
\<close>

datatype error =
    MissingArguments
  | UnknownHashName
  | InvalidCodeType
  | UnrecognizedCode
  | InvalidDigestType
  | LengthMismatch
  | LengthTooLarge
  | NotAByteSequence
  | TooShort
  | TooLong
  | UnknownFunctionCode
  | LengthInconsistent
  | TypeError

section \<open>The Map constructor and the tables\<close>

text \<open>
  A \<^verbatim>\<open>Map\<close> keeps its entries in insertion order; \<^verbatim>\<open>set\<close> replaces the value of a key
  that is present where it stands and appends a new key, which is \<open>AList.update\<close>;
  \<^verbatim>\<open>get\<close> is \<open>map_of\<close>.

  \<^verbatim>\<open>new Map(arg)\<close> iterates \<^verbatim>\<open>arg\<close> and calls \<^verbatim>\<open>set\<close> with each key and value it yields.
  The source calls it in two ways: with an array of pairs (\<^verbatim>\<open>mh.defaultLengths\<close>, line
  51), which is iterable, and with an object literal (\<^verbatim>\<open>mh.names\<close>, line 40). An object
  literal has no iterator: the constructor throws a \<^verbatim>\<open>TypeError\<close> and builds nothing.
\<close>

datatype ('k, 'v) map_arg =
    ObjectLiteral "(string \<times> 'v) list"
  | PairArray "('k \<times> 'v) list"

definition new_Map :: "('k, 'v) map_arg \<Rightarrow> error + ('k \<times> 'v) list" where
  "new_Map arg =
    (case arg of
       ObjectLiteral props \<Rightarrow> Inl TypeError
     | PairArray entries \<Rightarrow> Inr (fold (\<lambda>(k, v) m. AList.update k v m) entries []))"

text \<open>
  \<^verbatim>\<open>invert\<close>: for each key of the map, in order, \<^verbatim>\<open>reverse.set(map.get(key), key)\<close>.
  A key taken from \<^verbatim>\<open>map.keys()\<close> is always present, so the \<open>None\<close> branch is never taken.
\<close>

definition invert :: "('k \<times> 'v) list \<Rightarrow> ('v \<times> 'k) list" where
  "invert m =
    fold (\<lambda>key reverse.
            case map_of m key of
              Some v \<Rightarrow> AList.update v key reverse
            | None \<Rightarrow> reverse)
         (map fst m) []"

text \<open>The properties of the object literal of lines 41 to 46, and the pairs of lines 52 to 57.\<close>

definition listed_names :: "(string \<times> int) list" where
  "listed_names =
    [(''sha1'', 0x11),
     (''sha2-256'', 0x12),
     (''sha2-512'', 0x13),
     (''sha3'', 0x14),
     (''blake2b'', 0x40),
     (''blake2s'', 0x41)]"

definition listed_defaultLengths :: "(int \<times> int) list" where
  "listed_defaultLengths =
    [(0x11, 20), (0x12, 32), (0x13, 64), (0x14, 64), (0x40, 64), (0x41, 3)]"

text \<open>The tables the functions read: \<^verbatim>\<open>mh.names\<close>, \<^verbatim>\<open>mh.codes\<close> and \<^verbatim>\<open>mh.defaultLengths\<close>.\<close>

record tables =
  names :: "(string \<times> int) list"
  codes :: "(int \<times> string) list"
  defaultLengths :: "(int \<times> int) list"

text \<open>
  The module's top level, lines 40 to 58, as a function of the argument handed to the
  first \<^verbatim>\<open>new Map\<close>: an exception ends the evaluation of the module, and the functions
  of lines 62 to 149 are assigned only after the tables. \<open>load\<close> is the module as it is
  written, with the object literal.
\<close>

definition load_with :: "(string, int) map_arg \<Rightarrow> error + tables" where
  "load_with names_arg =
    (case new_Map names_arg of
       Inl e \<Rightarrow> Inl e
     | Inr ns \<Rightarrow>
        (case new_Map (PairArray listed_defaultLengths) of
           Inl e \<Rightarrow> Inl e
         | Inr dl \<Rightarrow> Inr \<lparr>names = ns, codes = invert ns, defaultLengths = dl\<rparr>))"

definition load :: "error + tables" where
  "load = load_with (ObjectLiteral listed_names)"

text \<open>
  A call of one of the module's functions: the module is evaluated first, and the
  function runs against the tables it built. What the module throws, the caller gets.
\<close>

definition require_then :: "error + tables \<Rightarrow> (tables \<Rightarrow> error + 'a) \<Rightarrow> error + 'a" where
  "require_then m f = (case m of Inl e \<Rightarrow> Inl e | Inr t \<Rightarrow> f t)"

text \<open>
  The tables that the same six entries give when they are handed over as an array of
  pairs, the form line 51 uses (see \<open>load_with_pairs\<close> below).
\<close>

definition listed_tables :: tables where
  "listed_tables =
    \<lparr>names = listed_names, codes = invert listed_names,
     defaultLengths = listed_defaultLengths\<rparr>"

section \<open>The codec\<close>

text \<open>
  Each function reads \<^verbatim>\<open>mh.names\<close> and \<^verbatim>\<open>mh.codes\<close> when it is called; the tables are
  its first argument here.
\<close>

definition names_get :: "tables \<Rightarrow> string \<Rightarrow> int option" where
  "names_get t s = map_of (names t) s"

definition codes_get :: "tables \<Rightarrow> int \<Rightarrow> string option" where
  "codes_get t c = map_of (codes t) c"

definition isAppCode :: "int \<Rightarrow> bool" where
  "isAppCode code = (code > 0 \<and> code < 0x10)"

text \<open>
  \<^verbatim>\<open>coerceCode\<close>, lines 136 to 144: the checks on \<^verbatim>\<open>code\<close> once a name has been
  replaced by its table entry.
\<close>

definition coerceCode_number :: "tables \<Rightarrow> jsval \<Rightarrow> error + int" where
  "coerceCode_number t code =
    (case code of
       Num c \<Rightarrow>
         if \<not> truthy (js_str (codes_get t c)) \<and> \<not> isAppCode c then Inl UnrecognizedCode
         else Inr c
     | _ \<Rightarrow> Inl InvalidCodeType)"

definition coerceCode :: "tables \<Rightarrow> jsval \<Rightarrow> error + int" where
  "coerceCode t hashfn =
    (case hashfn of
       Str s \<Rightarrow>
         if \<not> truthy (js_num (names_get t s)) then Inl UnknownHashName
         else coerceCode_number t (js_num (names_get t s))
     | _ \<Rightarrow> coerceCode_number t hashfn)"

text \<open>
  \<^verbatim>\<open>validate\<close> returns an \<^verbatim>\<open>Error\<close> or nothing (\<open>None\<close>). The two bytes it reads are
  read after the length test, so both indices are in range.
\<close>

definition validate :: "tables \<Rightarrow> jsval \<Rightarrow> error option" where
  "validate t multihash =
    (case multihash of
       Buf bs \<Rightarrow>
         if length bs < 3 then Some TooShort
         else if length bs > 129 then Some TooLong
         else if \<not> isAppCode (uint (bs ! 0)) \<and> \<not> truthy (js_str (codes_get t (uint (bs ! 0))))
           then Some UnknownFunctionCode
         else if int (length (drop 2 bs)) \<noteq> uint (bs ! 1) then Some LengthInconsistent
         else None
     | _ \<Rightarrow> Some NotAByteSequence)"

record Decoded =
  code :: int
  name :: "string option"
  length_d :: int
  digest :: "byte list"

text \<open>
  \<^verbatim>\<open>decode\<close> throws what \<^verbatim>\<open>validate\<close> returns. \<^verbatim>\<open>validate\<close> returns an error for every
  value that is not a Buffer, so the last branch is never taken.
\<close>

definition decode :: "tables \<Rightarrow> jsval \<Rightarrow> error + Decoded" where
  "decode t multihash =
    (case validate t multihash of
       Some err \<Rightarrow> Inl err
     | None \<Rightarrow>
        (case multihash of
           Buf bs \<Rightarrow>
             Inr \<lparr>code = uint (bs ! 0),
                  name = codes_get t (uint (bs ! 0)),
                  length_d = uint (bs ! 1),
                  digest = drop 2 bs\<rparr>
         | _ \<Rightarrow> Inl NotAByteSequence))"

text \<open>
  \<^verbatim>\<open>encode\<close>. The optional \<^verbatim>\<open>length\<close> is a number or absent (\<open>None\<close>); \<^verbatim>\<open>!length\<close> holds
  when it is absent or \<open>0\<close>. \<^verbatim>\<open>new Buffer([hashfn, length])\<close> keeps the low eight bits of
  each number.
\<close>

definition encode :: "tables \<Rightarrow> jsval \<Rightarrow> jsval \<Rightarrow> int option \<Rightarrow> error + byte list" where
  "encode t digest_v hashfn len =
    (if \<not> truthy digest_v \<or> \<not> truthy hashfn then Inl MissingArguments
     else case coerceCode t hashfn of
       Inl e \<Rightarrow> Inl e
     | Inr c \<Rightarrow>
        (case digest_v of
           Buf d \<Rightarrow>
             (let l = (case len of
                         None \<Rightarrow> int (length d)
                       | Some n \<Rightarrow> if \<not> truthy (Num n) then int (length d) else n) in
              if l \<noteq> 0 \<and> int (length d) \<noteq> l then Inl LengthMismatch
              else if l > 127 then Inl LengthTooLarge
              else Inr ([word_of_int c, word_of_int l] @ d))
         | _ \<Rightarrow> Inl InvalidDigestType))"

text \<open>
  \<^verbatim>\<open>decode(encode(digest, code))\<close> with no \<^verbatim>\<open>length\<close> argument: an error thrown by
  \<^verbatim>\<open>encode\<close> ends the evaluation, otherwise its Buffer is handed to \<^verbatim>\<open>decode\<close>.
\<close>

definition roundtrip :: "tables \<Rightarrow> byte list \<Rightarrow> int \<Rightarrow> error + Decoded" where
  "roundtrip t d c =
    (case encode t (Buf d) (Num c) None of
       Inl e \<Rightarrow> Inl e
     | Inr multihash \<Rightarrow> decode t (Buf multihash))"

section \<open>The contract of validate, as the specification words it\<close>

text \<open>
  The specification lists five failure reasons, checked in this order, the first that
  matches being the result: the input is not a byte sequence; its total length is below
  3; its total length is above 129; byte 0 is neither a registered code nor an
  application code (1 to 15); the number of bytes after the first two is not the value
  of byte 1. \<open>validate_spec_checks\<close> is that list, \<open>first_failure\<close> the short-circuit.
  It is compared with \<open>validate\<close>, which is the source's.
\<close>

definition validate_spec_checks :: "tables \<Rightarrow> jsval \<Rightarrow> (bool \<times> error) list" where
  "validate_spec_checks t x =
    (let bs = (case x of Buf b \<Rightarrow> b | _ \<Rightarrow> []); c = uint (bs ! 0) in
     [((case x of Buf b \<Rightarrow> False | _ \<Rightarrow> True), NotAByteSequence),
      (length bs < 3, TooShort),
      (length bs > 129, TooLong),
      (codes_get t c = None \<and> c \<notin> {1..15}, UnknownFunctionCode),
      (int (length (drop 2 bs)) \<noteq> uint (bs ! 1), LengthInconsistent)])"

definition first_failure :: "(bool \<times> error) list \<Rightarrow> error option" where
  "first_failure cs = map_option snd (find fst cs)"

section \<open>The module as written, and the tables of the listed entries\<close>

lemma load_throws: "load = Inl TypeError"
  by (simp add: load_def load_with_def new_Map_def)

lemma require_load: "require_then load f = Inl TypeError"
  by (simp add: require_then_def load_throws)

lemma load_with_pairs: "load_with (PairArray listed_names) = Inr listed_tables"
  by (simp add: load_with_def new_Map_def listed_tables_def listed_names_def
      listed_defaultLengths_def)

lemma codes_listed:
  "codes listed_tables =
    [(0x11, ''sha1''), (0x12, ''sha2-256''), (0x13, ''sha2-512''),
     (0x14, ''sha3''), (0x40, ''blake2b''), (0x41, ''blake2s'')]"
  by (simp add: listed_tables_def invert_def listed_names_def)

lemma names_get_listed: "names_get listed_tables s = map_of listed_names s"
  by (simp add: names_get_def listed_tables_def)

lemma codes_get_listed:
  "codes_get listed_tables c =
    (if c = 0x11 then Some ''sha1'' else if c = 0x12 then Some ''sha2-256''
     else if c = 0x13 then Some ''sha2-512'' else if c = 0x14 then Some ''sha3''
     else if c = 0x40 then Some ''blake2b'' else if c = 0x41 then Some ''blake2s''
     else None)"
  by (simp add: codes_get_def codes_listed)

text \<open>No listed name is the empty string, so a lookup is truthy exactly when it finds.\<close>

lemma truthy_codes_get_listed:
  "truthy (js_str (codes_get listed_tables c)) \<longleftrightarrow> codes_get listed_tables c \<noteq> None"
  by (simp add: codes_get_listed)

section \<open>Facts about the function bodies, for any tables\<close>

lemma isAppCode_iff: "isAppCode c \<longleftrightarrow> c \<in> {1..15}"
  by (auto simp add: isAppCode_def)

lemma coerceCode_Num:
  "truthy (js_str (codes_get t c)) \<or> isAppCode c \<Longrightarrow> coerceCode t (Num c) = Inr c"
  by (auto simp add: coerceCode_def coerceCode_number_def)

lemma byte_of_int: "0 \<le> k \<Longrightarrow> k < 256 \<Longrightarrow> uint (word_of_int k :: byte) = k"
  by (simp add: uint_word_of_int take_bit_int_eq_self)

text \<open>
  \<^verbatim>\<open>encode\<close> on a Buffer and a designator that passes line 63 and \<^verbatim>\<open>coerceCode\<close>: only
  the length checks are left.
\<close>

lemma encode_Buf:
  "truthy hashfn \<Longrightarrow> coerceCode t hashfn = Inr c \<Longrightarrow>
   encode t (Buf d) hashfn len =
     (let l = (case len of None \<Rightarrow> int (length d)
                | Some n \<Rightarrow> if n = 0 then int (length d) else n) in
      if l \<noteq> 0 \<and> int (length d) \<noteq> l then Inl LengthMismatch
      else if l > 127 then Inl LengthTooLarge
      else Inr ([word_of_int c, word_of_int l] @ d))"
  by (simp add: encode_def split: option.splits)

section \<open>Round trip\<close>

text \<open>
  C1 (as amended). Module initialisation is left aside (see C2): the statement is about
  the bodies of \<^verbatim>\<open>encode\<close> and \<^verbatim>\<open>decode\<close>, run against any tables. For every digest of 1
  to 127 bytes and every valid hash-function code (a code in 1..255 that the code table
  holds with a non-empty name, as it would each of the six listed entries, or an
  application code in 1..15), \<^verbatim>\<open>decode(encode(digest, code))\<close> returns the record with
  that code, the name the code table gives for it (none when there is no entry), the
  digest's byte length and the digest. The empty digest is left out: \<^verbatim>\<open>encode\<close> accepts
  it, and \<^verbatim>\<open>decode\<close> refuses the two bytes it produces.
\<close>

theorem roundtrip_nonempty:
  assumes "1 \<le> length d" and "length d \<le> 127"
    and "(\<exists>nm. codes_get t c = Some nm \<and> nm \<noteq> []) \<and> 0 < c \<and> c < 256 \<or>
         (1 \<le> c \<and> c \<le> 15)"
  shows "roundtrip t d c =
           Inr \<lparr>code = c, name = codes_get t c, length_d = int (length d), digest = d\<rparr>"
proof -
  from assms(3) have valid: "truthy (js_str (codes_get t c)) \<or> isAppCode c"
    by (auto simp add: isAppCode_def)
  from assms(3) have range: "0 \<le> c" "c < 256" and nz: "truthy (Num c)"
    by auto
  have c: "uint (word_of_int c :: byte) = c"
    using range by (rule byte_of_int)
  have l: "uint (word_of_int (int (length d)) :: byte) = int (length d)"
    using assms(2) by (intro byte_of_int) simp_all
  have l': "uint (word_of_nat (length d) :: byte) = int (length d)"
    using l by simp
  have enc: "encode t (Buf d) (Num c) None =
      Inr ([word_of_int c, word_of_int (int (length d))] @ d)"
    using assms(1,2) by (simp add: encode_Buf [OF nz coerceCode_Num [OF valid]])
  have val: "validate t (Buf ([word_of_int c, word_of_int (int (length d))] @ d)) = None"
    using assms(1,2) valid by (auto simp add: validate_def c l l')
  show ?thesis
    using val by (simp add: roundtrip_def enc decode_def c l l')
qed

theorem roundtrip_nonempty_witness:
  "roundtrip listed_tables [0xAB, 0xCD] 0x12 =
     Inr \<lparr>code = 0x12, name = Some ''sha2-256'', length_d = 2, digest = [0xAB, 0xCD]\<rparr>"
  using roundtrip_nonempty [of "[0xAB, 0xCD]" listed_tables "0x12"]
  by (simp add: codes_get_listed)

text \<open>
  The claim as first stated, with digests of 0 to 127 bytes, fails at the empty digest
  and the application code 5. On the module as written the call ends in the
  \<^verbatim>\<open>TypeError\<close> of line 40 and returns no record. With the six entries handed over as
  an array of pairs, \<^verbatim>\<open>encode\<close> returns the bytes 5, 0 and \<^verbatim>\<open>decode\<close> throws 'multihash
  too short'.
\<close>

theorem roundtrip_empty_digest_counterexample:
  "require_then load (\<lambda>t. roundtrip t [] 5) = Inl TypeError \<and>
   require_then (load_with (PairArray listed_names)) (\<lambda>t. roundtrip t [] 5) = Inl TooShort"
  by (simp add: load_throws load_with_pairs require_then_def roundtrip_def encode_def
      coerceCode_def coerceCode_number_def isAppCode_def decode_def validate_def)

section \<open>The registry\<close>

text \<open>
  C2. The module as written never builds the registry: \<^verbatim>\<open>new Map\<close> is given an object
  literal at line 40 and throws a \<^verbatim>\<open>TypeError\<close>, so loading the module fails and neither
  the lookup of 'sha1' in the name table nor the lookup of 0x11 in the code table
  returns. The same six entries handed over as an array of pairs (the form of line 51)
  give what the claim describes: two lookups that are inverse to each other and hold
  sha1 = 0x11, sha2-256 = 0x12, sha2-512 = 0x13, sha3 = 0x14, blake2b = 0x40 and
  blake2s = 0x41, each in both directions.
\<close>

theorem registry_never_built:
  "load = Inl TypeError \<and>
   require_then load (\<lambda>t. Inr (names_get t ''sha1'')) = Inl TypeError \<and>
   require_then load (\<lambda>t. Inr (codes_get t 0x11)) = Inl TypeError \<and>
   load_with (PairArray listed_names) = Inr listed_tables \<and>
   (\<forall>n c. names_get listed_tables n = Some c \<longleftrightarrow> codes_get listed_tables c = Some n) \<and>
   names_get listed_tables ''sha1'' = Some 0x11 \<and>
   codes_get listed_tables 0x11 = Some ''sha1'' \<and>
   names_get listed_tables ''sha2-256'' = Some 0x12 \<and>
   codes_get listed_tables 0x12 = Some ''sha2-256'' \<and>
   names_get listed_tables ''sha2-512'' = Some 0x13 \<and>
   codes_get listed_tables 0x13 = Some ''sha2-512'' \<and>
   names_get listed_tables ''sha3'' = Some 0x14 \<and>
   codes_get listed_tables 0x14 = Some ''sha3'' \<and>
   names_get listed_tables ''blake2b'' = Some 0x40 \<and>
   codes_get listed_tables 0x40 = Some ''blake2b'' \<and>
   names_get listed_tables ''blake2s'' = Some 0x41 \<and>
   codes_get listed_tables 0x41 = Some ''blake2s''"
proof -
  have inverse: "names_get listed_tables n = Some c \<longleftrightarrow> codes_get listed_tables c = Some n"
    for n c
    by (auto simp add: names_get_listed listed_names_def codes_get_listed split: if_splits)
  have entries:
    "names_get listed_tables ''sha1'' = Some 0x11"
    "names_get listed_tables ''sha2-256'' = Some 0x12"
    "names_get listed_tables ''sha2-512'' = Some 0x13"
    "names_get listed_tables ''sha3'' = Some 0x14"
    "names_get listed_tables ''blake2b'' = Some 0x40"
    "names_get listed_tables ''blake2s'' = Some 0x41"
    by (simp_all add: names_get_listed listed_names_def)
  show ?thesis
    using inverse
    by (simp add: load_throws require_then_def load_with_pairs entries codes_get_listed)
qed

section \<open>coerceCode\<close>

text \<open>
  C3. On the module as written, each of the four calls \<^verbatim>\<open>coerceCode("sha2-256")\<close>,
  \<^verbatim>\<open>coerceCode(0x12)\<close>, \<^verbatim>\<open>coerceCode("not-a-hash")\<close> and \<^verbatim>\<open>coerceCode(0x99)\<close> ends in the
  \<^verbatim>\<open>TypeError\<close> of line 40. Against the tables of the six listed entries the body of
  \<^verbatim>\<open>coerceCode\<close> gives what the claim says: 0x12, 0x12, UnknownHashName and
  UnrecognizedCode.
\<close>

theorem coerceCode_never_defined:
  "require_then load (\<lambda>t. coerceCode t (Str ''sha2-256'')) = Inl TypeError \<and>
   require_then load (\<lambda>t. coerceCode t (Num 0x12)) = Inl TypeError \<and>
   require_then load (\<lambda>t. coerceCode t (Str ''not-a-hash'')) = Inl TypeError \<and>
   require_then load (\<lambda>t. coerceCode t (Num 0x99)) = Inl TypeError \<and>
   coerceCode listed_tables (Str ''sha2-256'') = Inr 0x12 \<and>
   coerceCode listed_tables (Num 0x12) = Inr 0x12 \<and>
   coerceCode listed_tables (Str ''not-a-hash'') = Inl UnknownHashName \<and>
   coerceCode listed_tables (Num 0x99) = Inl UnrecognizedCode"
  by (simp add: require_load coerceCode_def coerceCode_number_def names_get_listed
      listed_names_def codes_get_listed isAppCode_def)

section \<open>validate\<close>

text \<open>
  C4. On the module as written, \<^verbatim>\<open>validate\<close> of any input ends in the \<^verbatim>\<open>TypeError\<close> of
  line 40: no call returns a failure reason or nothing. Against the tables of the six
  listed entries the body of \<^verbatim>\<open>validate\<close> does what the claim says: on every input its
  result is the first failure of the specification's ordered list of five checks, or
  nothing when none matches, and it is never any failure but NotAByteSequence,
  TooShort, TooLong, UnknownFunctionCode and LengthInconsistent.
\<close>

theorem validate_never_defined:
  "require_then load (\<lambda>t. Inr (validate t x)) = Inl TypeError \<and>
   validate listed_tables x = first_failure (validate_spec_checks listed_tables x) \<and>
   validate listed_tables x \<in>
     {None, Some NotAByteSequence, Some TooShort, Some TooLong,
      Some UnknownFunctionCode, Some LengthInconsistent}"
  by (cases x) (simp_all add: require_load validate_def validate_spec_checks_def
      first_failure_def truthy_codes_get_listed isAppCode_iff Let_def)

theorem validate_never_defined_witness:
  "require_then load (\<lambda>t. Inr (validate t (Buf [0x11, 2, 0xAB]))) = Inl TypeError \<and>
   validate listed_tables (Buf [0x11, 2, 0xAB]) = Some LengthInconsistent \<and>
   first_failure (validate_spec_checks listed_tables (Buf [0x11, 2, 0xAB])) =
     Some LengthInconsistent"
  using validate_never_defined [of "Buf [0x11, 2, 0xAB]"]
  by (simp add: validate_def isAppCode_def codes_get_listed)

text \<open>
  C5 (as amended). Module initialisation is left aside (see C2): the statement is about
  the bodies of \<^verbatim>\<open>validate\<close> and \<^verbatim>\<open>decode\<close>, run against any tables. The two bytes 5, 0
  (application code 5, length byte 0, no digest) are refused by \<^verbatim>\<open>validate\<close> with
  TooShort, and \<^verbatim>\<open>decode\<close> fails on them with the same failure. The shortest envelope
  with an application code carries one digest byte: for every byte b, \<^verbatim>\<open>validate\<close>
  reports no failure on 5, 1, b, and \<^verbatim>\<open>decode\<close> returns a record whose name is the code
  table's entry for 5, undefined when the table has none.
\<close>

theorem shortest_app_code_envelope:
  "validate t (Buf [5, 0]) = Some TooShort \<and>
   decode t (Buf [5, 0]) = Inl TooShort \<and>
   validate t (Buf [5, 1, b]) = None \<and>
   decode t (Buf [5, 1, b]) =
     Inr \<lparr>code = 5, name = codes_get t 5, length_d = 1, digest = [b]\<rparr> \<and>
   (codes_get t 5 = None \<longrightarrow>
      decode t (Buf [5, 1, b]) = Inr \<lparr>code = 5, name = None, length_d = 1, digest = [b]\<rparr>)"
  by (simp add: decode_def validate_def isAppCode_def)

theorem shortest_app_code_envelope_witness:
  "codes_get listed_tables 5 = None \<and>
   validate listed_tables (Buf [5, 1, 0xFF]) = None \<and>
   decode listed_tables (Buf [5, 1, 0xFF]) =
     Inr \<lparr>code = 5, name = None, length_d = 1, digest = [0xFF]\<rparr>"
  using shortest_app_code_envelope [of listed_tables "0xFF"]
  by (simp add: codes_get_listed)

text \<open>
  The claim as first stated fails on the bytes 5, 0: on the module as written the call
  ends in the \<^verbatim>\<open>TypeError\<close> of line 40, and with the six entries handed over as an array
  of pairs \<^verbatim>\<open>validate\<close> reports TooShort.
\<close>

theorem validate_zero_length_counterexample:
  "require_then load (\<lambda>t. Inr (validate t (Buf [5, 0]))) = Inl TypeError \<and>
   require_then (load_with (PairArray listed_names)) (\<lambda>t. Inr (validate t (Buf [5, 0]))) =
     Inr (Some TooShort)"
  by (simp add: load_throws load_with_pairs require_then_def validate_def)

section \<open>decode\<close>

text \<open>
  C6. On the module as written, \<^verbatim>\<open>decode\<close> of any input ends in the \<^verbatim>\<open>TypeError\<close> of line
  40, whatever \<^verbatim>\<open>validate\<close> would report. Against any tables the body of \<^verbatim>\<open>decode\<close> does
  what the claim says: it fails exactly when \<^verbatim>\<open>validate\<close> reports a failure, and with
  that failure; when \<^verbatim>\<open>validate\<close> reports none, the input is a byte sequence and
  \<^verbatim>\<open>decode\<close> returns the record of byte 0, the code table's name for byte 0, byte 1, and
  the bytes after the first two, which are as many as byte 1 says.
\<close>

theorem decode_never_defined:
  "require_then load (\<lambda>t. decode t x) = Inl TypeError \<and>
   (case validate t x of
      Some e \<Rightarrow> decode t x = Inl e
    | None \<Rightarrow>
        (\<exists>bs. x = Buf bs \<and>
          decode t x =
            Inr \<lparr>code = uint (bs ! 0), name = codes_get t (uint (bs ! 0)),
                 length_d = uint (bs ! 1), digest = drop 2 bs\<rparr> \<and>
          int (length (drop 2 bs)) = uint (bs ! 1)))"
proof (cases "validate t x")
  case None
  then obtain bs where x: "x = Buf bs"
    by (cases x) (simp_all add: validate_def)
  from None x have "int (length (drop 2 bs)) = uint (bs ! 1)"
    by (simp add: validate_def split: if_splits)
  with None x show ?thesis
    by (simp add: decode_def require_load)
next
  case (Some e)
  then show ?thesis
    by (simp add: decode_def require_load)
qed

theorem decode_never_defined_witness:
  "require_then load (\<lambda>t. decode t (Buf [5, 1, 7])) = Inl TypeError \<and>
   decode listed_tables (Buf [5, 0]) = Inl TooShort \<and>
   decode listed_tables (Str ''abc'') = Inl NotAByteSequence \<and>
   decode listed_tables (Buf [5, 1, 7]) =
     Inr \<lparr>code = 5, name = None, length_d = 1, digest = [7]\<rparr>"
  using decode_never_defined [of "Buf [5, 0]" listed_tables]
    decode_never_defined [of "Str ''abc''" listed_tables]
    decode_never_defined [of "Buf [5, 1, 7]" listed_tables]
  by (simp add: validate_def isAppCode_def codes_get_listed)

section \<open>The length checks of encode\<close>

text \<open>
  C7 (as amended). Module initialisation is left aside (see C2): the statement is about
  the body of \<^verbatim>\<open>encode\<close>, run against any tables. For every digest and every valid
  designator (one that is truthy and that \<^verbatim>\<open>coerceCode\<close> accepts), a length argument that
  is not 0 and is not the digest's byte length makes \<^verbatim>\<open>encode\<close> fail with
  LengthMismatch; so \<^verbatim>\<open>encode(digest, 0x11, 5)\<close> fails whenever the digest is not 5 bytes
  long. A length argument of 0 is treated as absent: \<^verbatim>\<open>encode\<close> gives what it gives with
  no length argument, and that is never LengthMismatch.
\<close>

theorem encode_length_mismatch:
  "truthy hashfn \<Longrightarrow> coerceCode t hashfn = Inr c \<Longrightarrow>
     (n \<noteq> 0 \<and> n \<noteq> int (length d) \<longrightarrow>
        encode t (Buf d) hashfn (Some n) = Inl LengthMismatch) \<and>
     encode t (Buf d) hashfn (Some 0) = encode t (Buf d) hashfn None \<and>
     encode t (Buf d) hashfn (Some 0) \<noteq> Inl LengthMismatch"
  by (simp add: encode_Buf Let_def)

theorem encode_length_mismatch_witness:
  "encode listed_tables (Buf [1, 2, 3]) (Num 0x11) (Some 5) = Inl LengthMismatch \<and>
   encode listed_tables (Buf [1, 2, 3]) (Num 0x11) (Some 0) =
     encode listed_tables (Buf [1, 2, 3]) (Num 0x11) None \<and>
   encode listed_tables (Buf [1, 2, 3]) (Num 0x11) (Some 0) \<noteq> Inl LengthMismatch"
proof -
  have nz: "truthy (Num 0x11)"
    by simp
  have "coerceCode listed_tables (Num 0x11) = Inr 0x11"
    by (simp add: coerceCode_def coerceCode_number_def codes_get_listed)
  from encode_length_mismatch [OF nz this, of 5 "[1, 2, 3]"] show ?thesis
    by auto
qed

text \<open>
  The claim as first stated fails at the explicit length 0, which differs from the byte
  length 5 of the digest: on the module as written the call ends in the \<^verbatim>\<open>TypeError\<close> of
  line 40, and with the six entries handed over as an array of pairs \<^verbatim>\<open>encode\<close>
  succeeds.
\<close>

theorem encode_zero_length_counterexample:
  "require_then load (\<lambda>t. encode t (Buf [1, 2, 3, 4, 5]) (Num 0x11) (Some 0)) =
     Inl TypeError \<and>
   (0 :: int) \<noteq> int (length [1, 2, 3, 4, 5 :: byte]) \<and>
   require_then (load_with (PairArray listed_names))
     (\<lambda>t. encode t (Buf [1, 2, 3, 4, 5]) (Num 0x11) (Some 0)) =
     Inr [0x11, 5, 1, 2, 3, 4, 5]"
  by (simp add: load_throws load_with_pairs require_then_def encode_def coerceCode_def
      coerceCode_number_def codes_get_listed)

text \<open>
  C8 (as amended). Module initialisation is left aside (see C2): the statement is about
  the body of \<^verbatim>\<open>encode\<close>, run against any tables. For every digest and every valid
  designator (one that is truthy and that \<^verbatim>\<open>coerceCode\<close> accepts), \<^verbatim>\<open>encode\<close> fails with
  LengthTooLarge exactly when the digest's byte length exceeds 127 and the length
  argument is absent, 0 or equal to that byte length. A length argument that is not 0
  and differs from the digest's byte length fails with LengthMismatch, which is checked
  first, whether or not it exceeds 127 and whatever the digest's length. In particular
  a 129-byte digest with "sha1" and no length fails with LengthTooLarge.
\<close>

theorem encode_length_too_large:
  "truthy hashfn \<Longrightarrow> coerceCode t hashfn = Inr c \<Longrightarrow>
     (encode t (Buf d) hashfn len = Inl LengthTooLarge \<longleftrightarrow>
        127 < length d \<and> (len = None \<or> len = Some 0 \<or> len = Some (int (length d)))) \<and>
     (\<forall>n. n \<noteq> 0 \<and> n \<noteq> int (length d) \<longrightarrow>
        encode t (Buf d) hashfn (Some n) = Inl LengthMismatch)"
  by (auto simp add: encode_Buf Let_def split: option.splits if_splits)

theorem encode_length_too_large_witness:
  "encode listed_tables (Buf (replicate 129 0)) (Str ''sha1'') None = Inl LengthTooLarge \<and>
   encode listed_tables (Buf (replicate 100 0)) (Str ''sha1'') (Some 200) = Inl LengthMismatch"
proof -
  have nz: "truthy (Str ''sha1'')"
    by simp
  have co: "coerceCode listed_tables (Str ''sha1'') = Inr 0x11"
    by (simp add: coerceCode_def coerceCode_number_def names_get_listed listed_names_def
        codes_get_listed)
  from encode_length_too_large [OF nz co, of "replicate 129 0" None]
    encode_length_too_large [OF nz co, of "replicate 100 0" None]
  show ?thesis
    by simp
qed

text \<open>
  The claim as first stated fails when a length argument above 127 differs from the
  digest's byte length, here 200 for a digest of 100 bytes: on the module as written
  the call ends in the \<^verbatim>\<open>TypeError\<close> of line 40, and with the six entries handed over as
  an array of pairs \<^verbatim>\<open>encode\<close> fails with LengthMismatch, not LengthTooLarge.
\<close>

theorem encode_mismatch_first_counterexample:
  "require_then load (\<lambda>t. encode t (Buf (replicate 100 0)) (Str ''sha1'') (Some 200)) =
     Inl TypeError \<and>
   (200 :: int) > 127 \<and>
   require_then (load_with (PairArray listed_names))
     (\<lambda>t. encode t (Buf (replicate 100 0)) (Str ''sha1'') (Some 200)) = Inl LengthMismatch"
  unfolding load_throws load_with_pairs require_then_def
  by (simp add: encode_def coerceCode_def coerceCode_number_def names_get_listed
      listed_names_def codes_get_listed)

section \<open>The invariant of validation\<close>

text \<open>
  C9. Whatever the tables, every input on which \<^verbatim>\<open>validate\<close> reports no failure is a byte
  sequence whose total length is 2 plus the value of its byte 1 and lies between 3 and
  129; hence byte 1 lies between 1 and 127.
\<close>

theorem validate_invariant:
  "validate t x = None \<Longrightarrow>
     \<exists>bs. x = Buf bs \<and> length bs = 2 + unat (bs ! 1) \<and>
          3 \<le> length bs \<and> length bs \<le> 129 \<and> 1 \<le> unat (bs ! 1) \<and> unat (bs ! 1) \<le> 127"
proof -
  assume ok: "validate t x = None"
  then obtain bs where x: "x = Buf bs"
    by (cases x) (simp_all add: validate_def)
  from ok x have len: "3 \<le> length bs" "length bs \<le> 129"
    and eq: "int (length (drop 2 bs)) = uint (bs ! 1)"
    by (simp_all add: validate_def split: if_splits)
  from eq have "int (length bs - 2) = int (unat (bs ! 1))"
    by simp
  then have "length bs - 2 = unat (bs ! 1)"
    by (simp only: of_nat_eq_iff)
  with len x show ?thesis
    by auto
qed

theorem validate_invariant_witness:
  "validate listed_tables (Buf [5, 1, 7]) = None \<and>
   length [5, 1, 7 :: byte] = 2 + unat ([5, 1, 7 :: byte] ! 1)"
proof -
  have ok: "validate listed_tables (Buf [5, 1, 7]) = None"
    by (simp add: validate_def isAppCode_def)
  from validate_invariant [OF ok] ok show ?thesis
    by auto
qed

section \<open>An output of encode that decode refuses\<close>

text \<open>
  C10. On the module as written, \<^verbatim>\<open>encode\<close> of the empty digest with any code ends in the
  \<^verbatim>\<open>TypeError\<close> of line 40: it does not succeed. Against any tables the bodies do what
  the claim says: for every application code c in 1..15, \<^verbatim>\<open>encode\<close> of the empty digest
  with c returns the two bytes c, 0; \<^verbatim>\<open>validate\<close> reports TooShort on every sequence of
  fewer than 3 bytes, so it reports TooShort on that output, and \<^verbatim>\<open>decode\<close> fails on it.
\<close>

theorem encode_never_defined:
  "require_then load (\<lambda>t. encode t (Buf []) (Num c) None) = Inl TypeError \<and>
   (1 \<le> c \<and> c \<le> 15 \<longrightarrow>
      encode t (Buf []) (Num c) None = Inr [word_of_int c, 0] \<and>
      validate t (Buf [word_of_int c, 0]) = Some TooShort \<and>
      decode t (Buf [word_of_int c, 0]) = Inl TooShort) \<and>
   (\<forall>bs. length bs < 3 \<longrightarrow> validate t (Buf bs) = Some TooShort)"
  by (simp add: load_throws require_then_def encode_def coerceCode_def coerceCode_number_def
      isAppCode_def decode_def validate_def)

theorem encode_never_defined_witness:
  "require_then load (\<lambda>t. encode t (Buf []) (Num 5) None) = Inl TypeError \<and>
   encode listed_tables (Buf []) (Num 5) None = Inr [5, 0] \<and>
   validate listed_tables (Buf [5, 0]) = Some TooShort \<and>
   decode listed_tables (Buf [5, 0]) = Inl TooShort"
  using encode_never_defined [of 5 listed_tables]
  by simp

end
